theory Spec2Isabelle
  imports Main
begin

section \<open>JavaScript strings and values\<close>

text \<open>
  A JavaScript string is a sequence of UTF-16 code units; \<open>length\<close>, \<open>slice\<close>,
  \<open>includes\<close> and \<open>split\<close> all count code units. The model writes one \<^typ>\<open>char\<close>
  per code unit and so covers the strings whose code units are below 256.
  \<open>s.slice(0, n)\<close> is \<^term>\<open>take n s\<close> and template concatenation is \<open>@\<close>.
\<close>

definition toLowerCase_char :: "char \<Rightarrow> char" where
  \<comment> \<open>The case mapping of the code units below 256: A-Z, and U+00C0..U+00DE without U+00D7.\<close>
  "toLowerCase_char c =
     (let n = (of_char c :: nat)
      in if (65 \<le> n \<and> n \<le> 90) \<or> (192 \<le> n \<and> n \<le> 222 \<and> n \<noteq> 215)
         then char_of (n + 32) else c)"

definition toLowerCase :: "string \<Rightarrow> string" where
  "toLowerCase s = map toLowerCase_char s"

fun startsWith :: "string \<Rightarrow> string \<Rightarrow> bool" where
  "startsWith s [] = True"
| "startsWith [] (p # ps) = False"
| "startsWith (c # cs) (p # ps) = (c = p \<and> startsWith cs ps)"

fun includesStr :: "string \<Rightarrow> string \<Rightarrow> bool" where
  "includesStr [] p = (p = [])"
| "includesStr (c # cs) p = (startsWith (c # cs) p \<or> includesStr cs p)"

definition is_whitespace :: "char \<Rightarrow> bool" where
  \<comment> \<open>The regular expression class \<open>\s\<close> on the code units below 256:
      tab, line feed, vertical tab, form feed, carriage return, space, no-break space.\<close>
  "is_whitespace c = ((of_char c :: nat) \<in> {9, 10, 11, 12, 13, 32, 160})"

text \<open>
  \<open>s.split(/\s+/)\<close>: the pieces of \<open>s\<close> between the maximal runs of whitespace. The
  result is never empty; a string that begins (ends) with whitespace has an empty
  first (last) piece.
\<close>

function split_whitespace :: "string \<Rightarrow> string list" where
  "split_whitespace s =
     (let piece = takeWhile (\<lambda>c. \<not> is_whitespace c) s;
          rest = dropWhile (\<lambda>c. \<not> is_whitespace c) s
      in if rest = [] then [piece]
         else piece # split_whitespace (dropWhile is_whitespace rest))"
  by pat_completeness auto
termination
proof (relation "measure length")
  show "wf (measure length)" by simp
next
  fix s :: string and piece rest
  assume p: "piece = takeWhile (\<lambda>c. \<not> is_whitespace c) s"
    and r: "rest = dropWhile (\<lambda>c. \<not> is_whitespace c) s"
    and ne: "rest \<noteq> []"
  from ne obtain c cs where rc: "rest = c # cs" by (cases rest) auto
  from rc r have "is_whitespace c"
    using hd_dropWhile [of "\<lambda>c. \<not> is_whitespace c" s] by auto
  then have "length (dropWhile is_whitespace rest) \<le> length cs"
    using rc by (simp add: length_dropWhile_le)
  moreover have "length rest \<le> length s"
    using r by (simp add: length_dropWhile_le)
  ultimately have "length (dropWhile is_whitespace rest) < length s"
    using rc by simp
  then show "(dropWhile is_whitespace rest, s) \<in> measure length" by simp
qed

declare split_whitespace.simps [simp del]

text \<open>
  A tool's parameters are a \<open>Record<string, unknown>\<close>: a map from property names to
  values, a missing property reading as \<open>undefined\<close>. The extractor only ever asks of
  a value whether \<open>typeof\<close> gives \<open>"string"\<close>.
\<close>

datatype js_value = JString string | JNumber int | JBoolean bool | JNull

type_synonym params = "string \<rightharpoonup> js_value"

section \<open>resource-extractor.ts\<close>

definition actionMap :: "string \<rightharpoonup> string" where
  "actionMap = map_of
     [(''Read'', ''fs.read''),
      (''Write'', ''fs.write''),
      (''Edit'', ''fs.write''),
      (''Glob'', ''fs.list''),
      (''MultiEdit'', ''fs.write''),
      (''Bash'', ''shell.exec''),
      (''Task'', ''agent.spawn''),
      (''WebFetch'', ''http.request''),
      (''WebSearch'', ''http.request''),
      (''computer-use:screenshot'', ''browser.screenshot''),
      (''computer-use:click'', ''browser.interact''),
      (''computer-use:type'', ''browser.interact''),
      (''computer-use:scroll'', ''browser.interact''),
      (''computer-use:navigate'', ''browser.navigate''),
      (''NotebookRead'', ''notebook.read''),
      (''NotebookEdit'', ''notebook.write''),
      (''mcp_tool'', ''mcp.call'')]"

text \<open>
  \<open>actionMap\<close> is an object literal, so \<open>actionMap[toolName]\<close> also finds the members
  it inherits from \<open>Object.prototype\<close>. None of them is null or undefined, so for these
  tool names \<open>??\<close> keeps the inherited function (for \<open>__proto__\<close>, the prototype
  object) and \<open>extractAction\<close> returns a value that is no string.
\<close>

definition objectPrototypeMembers :: "string list" where
  "objectPrototypeMembers =
     [''constructor'', ''__defineGetter__'', ''__defineSetter__'', ''hasOwnProperty'',
      ''__lookupGetter__'', ''__lookupSetter__'', ''isPrototypeOf'', ''propertyIsEnumerable'',
      ''toString'', ''valueOf'', ''__proto__'', ''toLocaleString'']"

datatype action_value = ActionName string | InheritedMember string

definition extractAction :: "string \<Rightarrow> action_value" where
  "extractAction toolName =
     (case actionMap toolName of
        Some a \<Rightarrow> ActionName a
      | None \<Rightarrow>
          if List.member objectPrototypeMembers toolName then InheritedMember toolName
          else ActionName (''tool.'' @ toLowerCase toolName))"

definition actionText :: "action_value \<Rightarrow> string" where
  \<comment> \<open>An action inside a template literal; for an inherited member, the text the Node
      runtime gives for the built-in function or the prototype object.\<close>
  "actionText a =
     (case a of
        ActionName s \<Rightarrow> s
      | InheritedMember m \<Rightarrow>
          if m = ''__proto__'' then ''[object Object]''
          else ''function '' @ (if m = ''constructor'' then ''Object'' else m)
               @ ''() { [native code] }'')"

definition pathKeys :: "string list" where
  "pathKeys = [''file_path'', ''filePath'', ''path'', ''file'', ''filename'']"

fun firstStringParam :: "params \<Rightarrow> string list \<Rightarrow> string option" where
  "firstStringParam ps [] = None"
| "firstStringParam ps (key # keys) =
     (case ps key of
        Some (JString s) \<Rightarrow> Some s
      | _ \<Rightarrow> firstStringParam ps keys)"

definition extractFilePath :: "params \<Rightarrow> string" where
  "extractFilePath ps =
     (case firstStringParam ps pathKeys of
        Some s \<Rightarrow> s
      | None \<Rightarrow> ''file:unknown'')"

definition maxLen :: nat where
  "maxLen = 100"

definition extractBashCommand :: "params \<Rightarrow> string" where
  "extractBashCommand ps =
     (case ps ''command'' of
        Some (JString command) \<Rightarrow>
          if length command \<le> maxLen then command
          else
            (let parts = split_whitespace command;
                 cmdName = (case parts of [] \<Rightarrow> ''cmd'' | p # _ \<Rightarrow> p);
                 firstArg = (case parts of _ # a # _ \<Rightarrow> a | _ \<Rightarrow> '''')
             in take maxLen (cmdName @ '' '' @ firstArg @ ''...''))
      | _ \<Rightarrow> ''bash:unknown'')"

definition stringParamOr :: "params \<Rightarrow> string \<Rightarrow> string \<Rightarrow> string" where
  \<comment> \<open>\<open>typeof params.k === "string" ? params.k : d\<close>\<close>
  "stringParamOr ps k d = (case ps k of Some (JString s) \<Rightarrow> s | _ \<Rightarrow> d)"

definition extractMcpResource :: "params \<Rightarrow> string" where
  "extractMcpResource ps =
     (let server = (case ps ''server'' of
                      Some (JString s) \<Rightarrow> s
                    | _ \<Rightarrow> stringParamOr ps ''mcp_server'' ''unknown'');
          tool = (case ps ''tool'' of
                    Some (JString s) \<Rightarrow> s
                  | _ \<Rightarrow> stringParamOr ps ''tool_name'' ''unknown'')
      in ''mcp:'' @ server @ ''/'' @ tool)"

definition js_or :: "string \<Rightarrow> string \<Rightarrow> string" where
  \<comment> \<open>\<open>a || b\<close> on a string or null left operand: the empty string and null are falsy.\<close>
  "js_or a b = (if a = [] then b else a)"

definition extractResource :: "string \<Rightarrow> params \<Rightarrow> string" where
  "extractResource toolName ps =
     (if toolName \<in> {''Read'', ''Write'', ''Edit'', ''MultiEdit''} then extractFilePath ps
      else if toolName = ''Glob'' then stringParamOr ps ''pattern'' ''*''
      else if toolName = ''Bash'' then extractBashCommand ps
      else if toolName \<in> {''WebFetch'', ''WebSearch''} then
        (case ps ''url'' of
           Some (JString u) \<Rightarrow> u
         | _ \<Rightarrow> (case ps ''query'' of
                   Some (JString q) \<Rightarrow> ''search:'' @ q
                 | _ \<Rightarrow> ''unknown''))
      else if toolName = ''computer-use:navigate'' then stringParamOr ps ''url'' ''browser:current''
      else if toolName \<in> {''computer-use:screenshot'', ''computer-use:click'',
                           ''computer-use:type'', ''computer-use:scroll''}
        then ''browser:current''
      else if toolName = ''Task'' then
        (case ps ''prompt'' of
           Some (JString p) \<Rightarrow> ''task:'' @ take 50 p
         | _ \<Rightarrow> ''task:unknown'')
      else if toolName \<in> {''NotebookRead'', ''NotebookEdit''}
        then stringParamOr ps ''notebook_path'' ''notebook:unknown''
      else if toolName = ''mcp_tool'' then extractMcpResource ps
      else js_or (extractFilePath ps)
             (js_or (stringParamOr ps ''path'' [])
                (js_or (stringParamOr ps ''target'' []) (toolName @ '':params''))))"

definition sensitivePatterns :: "string list" where
  "sensitivePatterns =
     [''/.ssh/'', ''/etc/passwd'', ''/etc/shadow'', ''id_rsa'', ''id_ed25519'',
      ''credentials'', ''.env'', ''secret'', ''token'', ''password'', ''api_key'',
      ''apikey'', ''private_key'', ''privatekey'', ''.pem'', ''.key'', ''aws_'',
      ''gcp_'', ''azure_'']"

definition isSensitiveResource :: "string \<Rightarrow> bool" where
  "isSensitiveResource resource =
     (let lowered = toLowerCase resource
      in list_ex (\<lambda>pattern. includesStr lowered pattern) sensitivePatterns)"

definition redactResource :: "string \<Rightarrow> string" where
  "redactResource resource =
     (if isSensitiveResource resource then ''[REDACTED]'' else resource)"

section \<open>config.ts\<close>

record SecureClawConfig =
  principal :: string
  policyFile :: string
  sidecarUrl :: string
  failClosed :: bool
  enablePostVerification :: bool
  verbose :: bool
  sessionId :: "string option"
  tenantId :: "string option"
  userId :: "string option"

text \<open>\<open>Partial<SecureClawConfig>\<close>: every property may be \<open>undefined\<close>.\<close>

record PartialConfig =
  principal_opt :: "string option"
  policyFile_opt :: "string option"
  sidecarUrl_opt :: "string option"
  failClosed_opt :: "bool option"
  enablePostVerification_opt :: "bool option"
  verbose_opt :: "bool option"
  sessionId_opt :: "string option"
  tenantId_opt :: "string option"
  userId_opt :: "string option"

definition defaultConfig :: SecureClawConfig where
  "defaultConfig =
     \<lparr>principal = ''agent:secureclaw'',
      policyFile = ''./policies/default.yaml'',
      sidecarUrl = ''http://127.0.0.1:9120'',
      failClosed = True,
      enablePostVerification = True,
      verbose = False,
      sessionId = None,
      tenantId = None,
      userId = None\<rparr>"

definition loadConfigFromEnv :: "(string \<rightharpoonup> string) \<Rightarrow> PartialConfig" where
  \<comment> \<open>The argument is \<open>process.env\<close>.\<close>
  "loadConfigFromEnv env =
     \<lparr>principal_opt = env ''SECURECLAW_PRINCIPAL'',
      policyFile_opt = env ''SECURECLAW_POLICY'',
      sidecarUrl_opt = env ''PREDICATE_SIDECAR_URL'',
      failClosed_opt = Some (env ''SECURECLAW_FAIL_OPEN'' \<noteq> Some ''true''),
      enablePostVerification_opt = Some (env ''SECURECLAW_VERIFY'' \<noteq> Some ''false''),
      verbose_opt = Some (env ''SECURECLAW_VERBOSE'' = Some ''true''),
      sessionId_opt = None,
      tenantId_opt = env ''SECURECLAW_TENANT_ID'',
      userId_opt = env ''SECURECLAW_USER_ID''\<rparr>"

definition override :: "'a \<Rightarrow> 'a option \<Rightarrow> 'a" where
  \<comment> \<open>One property of \<open>{...base, ...defined(overrides)}\<close>.\<close>
  "override b v = (case v of Some x \<Rightarrow> x | None \<Rightarrow> b)"

definition override_opt :: "'a option \<Rightarrow> 'a option \<Rightarrow> 'a option" where
  "override_opt b v = (case v of Some x \<Rightarrow> Some x | None \<Rightarrow> b)"

definition mergeConfig :: "SecureClawConfig \<Rightarrow> PartialConfig \<Rightarrow> SecureClawConfig" where
  "mergeConfig base overrides =
     \<lparr>principal = override (principal base) (principal_opt overrides),
      policyFile = override (policyFile base) (policyFile_opt overrides),
      sidecarUrl = override (sidecarUrl base) (sidecarUrl_opt overrides),
      failClosed = override (failClosed base) (failClosed_opt overrides),
      enablePostVerification =
        override (enablePostVerification base) (enablePostVerification_opt overrides),
      verbose = override (verbose base) (verbose_opt overrides),
      sessionId = override_opt (sessionId base) (sessionId_opt overrides),
      tenantId = override_opt (tenantId base) (tenantId_opt overrides),
      userId = override_opt (userId base) (userId_opt overrides)\<rparr>"

definition pluginConfig :: "(string \<rightharpoonup> string) \<Rightarrow> PartialConfig \<Rightarrow> SecureClawConfig" where
  \<comment> \<open>The first two lines of \<open>createSecureClawPlugin\<close>: defaults, then the environment,
      then the explicit options.\<close>
  "pluginConfig env options = mergeConfig (mergeConfig defaultConfig (loadConfigFromEnv env)) options"

section \<open>plugin.ts\<close>

subsection \<open>The SDK boundary\<close>

text \<open>
  \<open>GuardedProvider.guardOrThrow\<close> belongs to the SDK; the plugin sees only how its
  promise settles. A value the promise rejects with is modelled by what the handler reads
  from it: which of the two SDK error classes it is an instance of, whether it is an
  \<open>Error\<close> at all, its \<open>message\<close> (\<open>None\<close> when undefined), and for a value that is no
  \<open>Error\<close> what \<open>String(error)\<close> does: it gives a text (\<open>NonError\<close>), or it throws
  (\<open>Unconvertible\<close>, with the value thrown), as it does with a \<open>TypeError\<close> for an object
  without \<open>toString\<close> and \<open>valueOf\<close> such as \<open>Object.create(null)\<close>. A promise that
  never settles is outside the model.
\<close>

datatype js_thrown =
    ActionDeniedError "string option"
  | SidecarUnavailableError "string option"
  | OtherError "string option"
  | NonError string
  | Unconvertible js_thrown

definition typeError :: js_thrown where
  \<comment> \<open>The \<open>TypeError\<close> of \<open>String(Object.create(null))\<close>.\<close>
  "typeError = OtherError (Some ''Cannot convert object to primitive value'')"

datatype 'a promise = Resolved 'a | Rejected js_thrown

record GuardContext =
  session_id :: "string option"
  tenant_id :: "string option"
  user_id :: "string option"
  agent_id :: "string option"
  source :: string

record GuardRequest =
  action :: action_value
  resource :: string
  args :: params
  request_context :: GuardContext

datatype outcome = Allow_outcome | Deny_outcome | Error_outcome

record DecisionTelemetryEvent =
  dte_action :: string
  dte_resource :: string
  dte_outcome :: outcome
  dte_reason :: "string option"
  dte_timestamp :: "nat option"
  dte_durationMs :: "nat option"
  dte_mandateId :: "string option"

subsection \<open>Hook events, results and the plugin's state\<close>

record PluginHookBeforeToolCallEvent =
  toolName :: string
  params :: params

record PluginHookToolContext =
  ctx_toolName :: string
  agentId :: "string option"
  sessionKey :: "string option"

record PluginHookBeforeToolCallResult =
  block :: bool
  blockReason :: string

datatype log_level = Info | Warn | Error

record ToolMetrics =
  count :: nat
  blocked :: nat

text \<open>
  The closure variables of \<open>createSecureClawPlugin\<close>, and the lines written to the
  host's logger so far.
\<close>

record plugin_state =
  currentSessionId :: "string option"
  sessionStartTime :: "nat option"
  toolCallMetrics :: "string \<rightharpoonup> ToolMetrics"
  logged :: "(log_level \<times> string) list"

definition log_line :: "log_level \<Rightarrow> string \<Rightarrow> plugin_state \<Rightarrow> plugin_state" where
  "log_line lvl msg st = st\<lparr>logged := logged st @ [(lvl, msg)]\<rparr>"

definition template :: "string option \<Rightarrow> string" where
  \<comment> \<open>A possibly undefined string inside a template literal.\<close>
  "template v = (case v of Some s \<Rightarrow> s | None \<Rightarrow> ''undefined'')"

definition unavailableReason :: string where
  "unavailableReason = ''[SecureClaw] Authorization service unavailable (fail-closed mode)''"

subsection \<open>The audit exporter and the post-execution verifiers\<close>

text \<open>
  An async function returns a promise; the model gives how it settles (\<open>Inl\<close> a
  rejection, \<open>Inr\<close> the value) and the state it leaves.
\<close>

definition exportDecision ::
  "DecisionTelemetryEvent \<Rightarrow> plugin_state \<Rightarrow> (js_thrown + unit) \<times> plugin_state" where
  "exportDecision event st = (Inr (), st)"

definition verifyBrowserState ::
  "string \<Rightarrow> params \<Rightarrow> js_value option \<Rightarrow> bool \<Rightarrow> plugin_state
     \<Rightarrow> (js_thrown + unit) \<times> plugin_state" where
  "verifyBrowserState tool ps result vb st =
     (Inr (),
      if vb then log_line Info (''[SecureClaw] Browser verification: '' @ tool @ '' (placeholder)'') st
      else st)"

definition verifyFileWrite ::
  "string \<Rightarrow> params \<Rightarrow> js_value option \<Rightarrow> bool \<Rightarrow> plugin_state
     \<Rightarrow> (js_thrown + unit) \<times> plugin_state" where
  "verifyFileWrite tool ps result vb st =
     (Inr (),
      if vb then log_line Info (''[SecureClaw] File write verification: '' @ tool @ '' (placeholder)'') st
      else st)"

subsection \<open>The \<open>before_tool_call\<close> hook\<close>

definition guardRequestOf ::
  "SecureClawConfig \<Rightarrow> PluginHookBeforeToolCallEvent \<Rightarrow> PluginHookToolContext
     \<Rightarrow> plugin_state \<Rightarrow> GuardRequest" where
  "guardRequestOf config event ctx st =
     \<lparr>action = extractAction (toolName event),
      resource = extractResource (toolName event) (params event),
      args = params event,
      request_context =
        \<lparr>session_id = (case currentSessionId st of Some s \<Rightarrow> Some s | None \<Rightarrow> sessionKey ctx),
         tenant_id = tenantId config,
         user_id = userId config,
         agent_id = agentId ctx,
         source = ''secureclaw''\<rparr>\<rparr>"

definition markBlocked :: "string \<Rightarrow> ToolMetrics \<Rightarrow> plugin_state \<Rightarrow> plugin_state" where
  \<comment> \<open>\<open>metrics.blocked++; toolCallMetrics.set(toolName, metrics)\<close>\<close>
  "markBlocked tool metrics st =
     st\<lparr>toolCallMetrics := (toolCallMetrics st)(tool \<mapsto> metrics\<lparr>blocked := blocked metrics + 1\<rparr>)\<rparr>"

text \<open>
  The \<open>catch\<close> block of the hook. For a value of neither SDK error class it first
  computes \<open>errorMessage\<close> as \<open>error instanceof Error ? error.message : String(error)\<close>;
  when that conversion throws, the exception leaves the \<open>catch\<close> block and the hook
  rejects with it. Otherwise the block goes on with \<open>unknownError\<close>.
\<close>

definition unknownError ::
  "SecureClawConfig \<Rightarrow> string \<Rightarrow> ToolMetrics \<Rightarrow> string \<Rightarrow> plugin_state
     \<Rightarrow> (js_thrown + PluginHookBeforeToolCallResult option) \<times> plugin_state" where
  "unknownError config tool metrics errorMessage st =
     (if failClosed config then
        (let st1 = markBlocked tool metrics st;
             st2 = log_line Error
                     (''[SecureClaw] Unknown error (fail-closed): '' @ errorMessage) st1
         in (Inr (Some \<lparr>block = True, blockReason = unavailableReason\<rparr>), st2))
      else
        (Inr None,
         log_line Warn (''[SecureClaw] Unknown error (fail-open): '' @ errorMessage) st))"

definition catchGuardError ::
  "SecureClawConfig \<Rightarrow> string \<Rightarrow> action_value \<Rightarrow> ToolMetrics \<Rightarrow> js_thrown \<Rightarrow> plugin_state
     \<Rightarrow> (js_thrown + PluginHookBeforeToolCallResult option) \<times> plugin_state" where
  "catchGuardError config tool act metrics error st =
     (case error of
        ActionDeniedError msg \<Rightarrow>
          (let st1 = markBlocked tool metrics st;
               reason = (case msg of Some m \<Rightarrow> m | None \<Rightarrow> ''denied_by_policy'');
               st2 = (if verbose config
                      then log_line Warn (''[SecureClaw] BLOCKED: '' @ actionText act @ '' - '' @ reason) st1
                      else st1)
           in (Inr (Some \<lparr>block = True,
                           blockReason = ''[SecureClaw] Action blocked: '' @ reason\<rparr>), st2))
      | SidecarUnavailableError msg \<Rightarrow>
          (let st1 = markBlocked tool metrics st;
               st2 = log_line Error (''[SecureClaw] Sidecar error (fail-closed): '' @ template msg) st1
           in (Inr (Some \<lparr>block = True, blockReason = unavailableReason\<rparr>), st2))
      | OtherError msg \<Rightarrow> unknownError config tool metrics (template msg) st
      | NonError text \<Rightarrow> unknownError config tool metrics text st
      | Unconvertible thrown \<Rightarrow> (Inl thrown, st))"

definition before_tool_call ::
  "SecureClawConfig \<Rightarrow> (GuardRequest \<Rightarrow> string option promise)
     \<Rightarrow> PluginHookBeforeToolCallEvent \<Rightarrow> PluginHookToolContext \<Rightarrow> plugin_state
     \<Rightarrow> (js_thrown + PluginHookBeforeToolCallResult option) \<times> plugin_state" where
  "before_tool_call config guardOrThrow event ctx st =
     (let act = extractAction (toolName event);
          res = extractResource (toolName event) (params event);
          found = (case toolCallMetrics st (toolName event) of
                     Some m \<Rightarrow> m
                   | None \<Rightarrow> \<lparr>count = 0, blocked = 0\<rparr>);
          metrics = found\<lparr>count := count found + 1\<rparr>;
          st1 = st\<lparr>toolCallMetrics := (toolCallMetrics st)(toolName event \<mapsto> metrics)\<rparr>;
          st2 = (if verbose config
                 then log_line Info
                        (''[SecureClaw] Pre-auth: '' @ actionText act @ '' on '' @ redactResource res)
                        st1
                 else st1)
      in case guardOrThrow (guardRequestOf config event ctx st) of
           Resolved mandate \<Rightarrow> (Inr None, st2)
         | Rejected error \<Rightarrow> catchGuardError config (toolName event) act metrics error st2)"

text \<open>Inputs on which the hook is run below: a fresh plugin, a shell command to authorize.\<close>

definition initialState :: plugin_state where
  "initialState =
     \<lparr>currentSessionId = None, sessionStartTime = None,
      toolCallMetrics = Map.empty, logged = []\<rparr>"

definition bashEvent :: PluginHookBeforeToolCallEvent where
  "bashEvent = \<lparr>toolName = ''Bash'', params = [''command'' \<mapsto> JString ''echo hello'']\<rparr>"

definition bashContext :: PluginHookToolContext where
  "bashContext = \<lparr>ctx_toolName = ''Bash'', agentId = None, sessionKey = None\<rparr>"

definition failOpenConfig :: SecureClawConfig where
  \<comment> \<open>The configuration of a process started with \<open>SECURECLAW_FAIL_OPEN=true\<close> and no options.\<close>
  "failOpenConfig =
     pluginConfig [''SECURECLAW_FAIL_OPEN'' \<mapsto> ''true'']
       \<lparr>principal_opt = None, policyFile_opt = None, sidecarUrl_opt = None,
        failClosed_opt = None, enablePostVerification_opt = None, verbose_opt = None,
        sessionId_opt = None, tenantId_opt = None, userId_opt = None\<rparr>"

text \<open>Four ways the SDK call can reject; the last rejects with \<open>Object.create(null)\<close>.\<close>

definition guardDenies :: "GuardRequest \<Rightarrow> string option promise" where
  "guardDenies request = Rejected (ActionDeniedError (Some ''policy_violation''))"

definition guardUnreachable :: "GuardRequest \<Rightarrow> string option promise" where
  "guardUnreachable request = Rejected (SidecarUnavailableError (Some ''Connection refused''))"

definition guardFaulty :: "GuardRequest \<Rightarrow> string option promise" where
  "guardFaulty request = Rejected (OtherError (Some ''fetch failed''))"

definition guardUnconvertible :: "GuardRequest \<Rightarrow> string option promise" where
  "guardUnconvertible request = Rejected (Unconvertible typeError)"

section \<open>The policy engine\<close>

text \<open>
  Modelled from the spec: the decision evaluator, its data model and its pattern matcher
  run in the authorization sidecar, whose code is not among the sources; the plugin only
  calls it through the SDK. The definitions of this section follow sections 3, 4.1 and
  4.3 of the specification.
\<close>

datatype effect = Allow | Deny

record Rule =
  name :: string
  effect :: effect
  principals :: "string list"
  actions :: "string list"
  resources :: "string list"
  required_labels :: "string list"
  max_delegation_depth :: "int option"

record PolicyDocument =
  version :: string
  rules :: "Rule list"

record AuthorizationRequest =
  req_principal :: string
  req_action :: string
  req_resource :: string
  labels :: "string list"
  intent_hash :: "string option"

record AuthorizationDecision =
  allow :: bool
  reason :: string
  matched_rule :: "string option"
  mandate_id :: "string option"

fun matches :: "string \<Rightarrow> string \<Rightarrow> bool" where
  \<comment> \<open>Modelled from the spec: the pattern matcher of section 4.1, anchored and
      case-sensitive, a \<open>*\<close> standing for any run of characters, as the concrete cases of
      sections 4.1 and 8 need (\<open>*/.aws/*\<close> matches \<open>/home/u/.aws/credentials\<close>).\<close>
  "matches [] candidate = (candidate = [])"
| "matches (p # ps) [] = (p = CHR ''*'' \<and> matches ps [])"
| "matches (p # ps) (c # cs) =
     (if p = CHR ''*'' then matches ps (c # cs) \<or> matches (p # ps) cs
      else p = c \<and> matches ps cs)"

definition structurally_matches ::
  "(string \<Rightarrow> string \<Rightarrow> bool) \<Rightarrow> Rule \<Rightarrow> AuthorizationRequest \<Rightarrow> bool" where
  \<comment> \<open>Modelled from the spec: the triple match of section 4.3, step 1. The matcher is an
      argument: nothing below depends on which patterns match which strings.\<close>
  "structurally_matches matcher rule request =
     (list_ex (\<lambda>p. matcher p (req_principal request)) (principals rule)
      \<and> list_ex (\<lambda>p. matcher p (req_action request)) (actions rule)
      \<and> list_ex (\<lambda>p. matcher p (req_resource request)) (resources rule))"

definition labels_present :: "Rule \<Rightarrow> AuthorizationRequest \<Rightarrow> bool" where
  \<comment> \<open>Modelled from the spec: every required label is among the request's labels.\<close>
  "labels_present rule request =
     list_all (\<lambda>l. List.member (labels request) l) (required_labels rule)"

definition evaluate ::
  "(string \<Rightarrow> string \<Rightarrow> bool) \<Rightarrow> PolicyDocument \<Rightarrow> AuthorizationRequest \<Rightarrow> string
     \<Rightarrow> AuthorizationDecision" where
  \<comment> \<open>Modelled from the spec: the three phases of section 4.3, each taking the first rule
      in document order. The last argument is the freshly generated mandate id.\<close>
  "evaluate matcher document request mandate =
     (case find (\<lambda>r. effect r = Deny \<and> structurally_matches matcher r request)
             (rules document) of
        Some r \<Rightarrow>
          \<lparr>allow = False, reason = ''denied_by_policy:'' @ name r,
           matched_rule = Some (name r), mandate_id = None\<rparr>
      | None \<Rightarrow>
          (case find (\<lambda>r. effect r = Allow \<and> structurally_matches matcher r request
                            \<and> labels_present r request)
                  (rules document) of
             Some r \<Rightarrow>
               \<lparr>allow = True, reason = ''allowed_by_policy:'' @ name r,
                matched_rule = Some (name r), mandate_id = Some mandate\<rparr>
           | None \<Rightarrow>
               \<lparr>allow = False, reason = ''no_matching_allow_rule'',
                matched_rule = None, mandate_id = None\<rparr>))"

text \<open>
  The two rules of the end-to-end scenarios of section 8, a document holding the allow
  rule first, the document without rules, and a request both rules match.
\<close>

definition allowRead :: Rule where
  "allowRead =
     \<lparr>name = ''allow-read'', effect = Allow, principals = [''*''], actions = [''fs.read''],
      resources = [''*''], required_labels = [], max_delegation_depth = None\<rparr>"

definition denyAws :: Rule where
  "denyAws =
     \<lparr>name = ''deny-aws'', effect = Deny, principals = [''*''],
      actions = [''fs.read'', ''fs.write''], resources = [''*/.aws/*''],
      required_labels = [], max_delegation_depth = None\<rparr>"

definition allowThenDeny :: PolicyDocument where
  "allowThenDeny = \<lparr>version = ''1.0'', rules = [allowRead, denyAws]\<rparr>"

definition emptyDocument :: PolicyDocument where
  "emptyDocument = \<lparr>version = ''1.0'', rules = []\<rparr>"

definition awsRequest :: AuthorizationRequest where
  "awsRequest =
     \<lparr>req_principal = ''agent:x'', req_action = ''fs.read'',
      req_resource = ''/home/u/.aws/credentials'', labels = [], intent_hash = None\<rparr>"

text \<open>A decision event handed to the audit exporter.\<close>

definition denyEvent :: DecisionTelemetryEvent where
  "denyEvent =
     \<lparr>dte_action = ''shell.exec'', dte_resource = ''echo hello'', dte_outcome = Deny_outcome,
      dte_reason = Some ''policy_violation'', dte_timestamp = None, dte_durationMs = None,
      dte_mandateId = None\<rparr>"

section \<open>Properties of the string operations\<close>

lemma startsWith_iff: "startsWith s p \<longleftrightarrow> (\<exists>t. s = p @ t)"
  by (induction s p rule: startsWith.induct) auto

lemma includesStr_iff: "includesStr s p \<longleftrightarrow> (\<exists>a b. s = a @ p @ b)"
proof (induction s)
  case Nil
  then show ?case by auto
next
  case (Cons c cs)
  show ?case
  proof
    assume "includesStr (c # cs) p"
    then consider "startsWith (c # cs) p" | "includesStr cs p" by auto
    then show "\<exists>a b. c # cs = a @ p @ b"
    proof cases
      case 1
      then obtain t where "c # cs = p @ t" by (auto simp: startsWith_iff)
      then have "c # cs = [] @ p @ t" by simp
      then show ?thesis by blast
    next
      case 2
      with Cons.IH obtain a b where "cs = a @ p @ b" by auto
      then have "c # cs = (c # a) @ p @ b" by simp
      then show ?thesis by blast
    qed
  next
    assume "\<exists>a b. c # cs = a @ p @ b"
    then obtain a b where ab: "c # cs = a @ p @ b" by auto
    show "includesStr (c # cs) p"
    proof (cases a)
      case Nil
      with ab have "startsWith (c # cs) p" by (auto simp: startsWith_iff)
      then show ?thesis by simp
    next
      case (Cons a0 as)
      with ab have "cs = as @ p @ b" by simp
      with Cons.IH have "includesStr cs p" by blast
      then show ?thesis by simp
    qed
  qed
qed

section \<open>The resource extractor\<close>

text \<open>The action of a listed tool, of an unlisted one, and of two inherited member names.\<close>

lemma extractAction_examples:
  "extractAction ''Bash'' = ActionName ''shell.exec''"
  "extractAction ''CustomTool'' = ActionName ''tool.customtool''"
  "extractAction ''constructor'' = InheritedMember ''constructor''"
  "extractAction ''__proto__'' = InheritedMember ''__proto__''"
  "actionText (extractAction ''toString'') = ''function toString() { [native code] }''"
  by code_simp+

lemma split_whitespace_unfold:
  "split_whitespace s =
     (if dropWhile (\<lambda>c. \<not> is_whitespace c) s = []
      then [takeWhile (\<lambda>c. \<not> is_whitespace c) s]
      else takeWhile (\<lambda>c. \<not> is_whitespace c) s #
           split_whitespace
             (dropWhile is_whitespace (dropWhile (\<lambda>c. \<not> is_whitespace c) s)))"
proof -
  have "split_whitespace s =
     (let piece = takeWhile (\<lambda>c. \<not> is_whitespace c) s;
          rest = dropWhile (\<lambda>c. \<not> is_whitespace c) s
      in if rest = [] then [piece]
         else piece # split_whitespace (dropWhile is_whitespace rest))"
    by (rule split_whitespace.simps)
  then show ?thesis by (simp only: Let_def)
qed

lemma split_whitespace_hd:
  "\<exists>ps. split_whitespace s = takeWhile (\<lambda>c. \<not> is_whitespace c) s # ps"
proof (cases "dropWhile (\<lambda>c. \<not> is_whitespace c) s = []")
  case True
  then have "split_whitespace s = [takeWhile (\<lambda>c. \<not> is_whitespace c) s]"
    using split_whitespace_unfold [of s] by (simp only: if_True simp_thms)
  then show ?thesis by blast
next
  case False
  then have "split_whitespace s = takeWhile (\<lambda>c. \<not> is_whitespace c) s #
      split_whitespace (dropWhile is_whitespace (dropWhile (\<lambda>c. \<not> is_whitespace c) s))"
    using split_whitespace_unfold [of s] by (simp only: if_False simp_thms)
  then show ?thesis by blast
qed

lemma split_whitespace_first:
  "(case split_whitespace s of [] \<Rightarrow> ''cmd'' | p # _ \<Rightarrow> p) =
     takeWhile (\<lambda>c. \<not> is_whitespace c) s"
proof -
  obtain ps where "split_whitespace s = takeWhile (\<lambda>c. \<not> is_whitespace c) s # ps"
    using split_whitespace_hd by blast
  then show ?thesis by (simp only: list.case)
qed

lemma split_whitespace_second:
  "(case split_whitespace s of _ # a # _ \<Rightarrow> a | _ \<Rightarrow> '''') =
     takeWhile (\<lambda>c. \<not> is_whitespace c)
       (dropWhile is_whitespace (dropWhile (\<lambda>c. \<not> is_whitespace c) s))"
proof (cases "dropWhile (\<lambda>c. \<not> is_whitespace c) s = []")
  case True
  then have "split_whitespace s = [takeWhile (\<lambda>c. \<not> is_whitespace c) s]"
    using split_whitespace_unfold [of s] by (simp only: if_True simp_thms)
  then show ?thesis
    by (simp only: True list.case dropWhile.simps takeWhile.simps)
next
  case False
  let ?rest = "dropWhile is_whitespace (dropWhile (\<lambda>c. \<not> is_whitespace c) s)"
  from False have "split_whitespace s =
      takeWhile (\<lambda>c. \<not> is_whitespace c) s # split_whitespace ?rest"
    using split_whitespace_unfold [of s] by (simp only: if_False simp_thms)
  moreover obtain ps where
    "split_whitespace ?rest = takeWhile (\<lambda>c. \<not> is_whitespace c) ?rest # ps"
    using split_whitespace_hd by blast
  ultimately show ?thesis by (simp only: list.case)
qed

lemma extractBashCommand_long:
  assumes "ps ''command'' = Some (JString c)" "100 < length c"
  shows "extractBashCommand ps =
     take 100 (takeWhile (\<lambda>c. \<not> is_whitespace c) c @ '' '' @
       takeWhile (\<lambda>c. \<not> is_whitespace c)
         (dropWhile is_whitespace (dropWhile (\<lambda>c. \<not> is_whitespace c) c)) @ ''...'')"
  using assms
  unfolding extractBashCommand_def maxLen_def Let_def split_whitespace_first split_whitespace_second
  by simp

lemma take_len: "length (take n (xs :: string)) \<le> n"
  by simp

lemma extractBashCommand_length: "length (extractBashCommand ps) \<le> 100"
proof (cases "ps ''command''")
  case None
  then show ?thesis by (simp add: extractBashCommand_def)
next
  case (Some v)
  show ?thesis
  proof (cases v)
    case (JString c)
    show ?thesis
    proof (cases "length c \<le> 100")
      case True
      with Some JString show ?thesis by (simp add: extractBashCommand_def maxLen_def)
    next
      case False
      with Some JString show ?thesis
        unfolding extractBashCommand_def maxLen_def Let_def
        by (simp only: option.case js_value.case if_False take_len)
    qed
  qed (use Some in \<open>simp_all add: extractBashCommand_def\<close>)
qed

lemma extractResource_Bash: "extractResource ''Bash'' ps = extractBashCommand ps"
  by (simp add: extractResource_def)

text \<open>
  What \<open>extractResource("Bash", params)\<close> computes: a string of at most 100 code units;
  a string \<open>command\<close> of length at most 100 as it is; for a longer one the first piece of
  \<open>command.split(/\s+/)\<close> (the characters before the first whitespace, none when the
  command begins with whitespace), a space, the second piece (the characters between
  the first and the second run of whitespace) and \<open>...\<close>, cut to 100 code units;
  \<open>bash:unknown\<close> when \<open>command\<close> is missing or no string.
\<close>

lemma extractResource_Bash_pieces:
  "length (extractResource ''Bash'' ps) \<le> 100
   \<and> (\<forall>c. ps ''command'' = Some (JString c) \<and> length c \<le> 100
          \<longrightarrow> extractResource ''Bash'' ps = c)
   \<and> (\<forall>c. ps ''command'' = Some (JString c) \<and> 100 < length c
          \<longrightarrow> extractResource ''Bash'' ps =
              take 100 (takeWhile (\<lambda>x. \<not> is_whitespace x) c @ '' '' @
                takeWhile (\<lambda>x. \<not> is_whitespace x)
                  (dropWhile is_whitespace (dropWhile (\<lambda>x. \<not> is_whitespace x) c)) @ ''...''))
   \<and> ((\<forall>c. ps ''command'' \<noteq> Some (JString c))
          \<longrightarrow> extractResource ''Bash'' ps = ''bash:unknown'')"
proof (intro conjI allI impI)
  show "length (extractResource ''Bash'' ps) \<le> 100"
    by (simp add: extractResource_Bash extractBashCommand_length)
next
  fix c assume "ps ''command'' = Some (JString c) \<and> length c \<le> 100"
  then show "extractResource ''Bash'' ps = c"
    by (simp add: extractResource_Bash extractBashCommand_def maxLen_def)
next
  fix c assume "ps ''command'' = Some (JString c) \<and> 100 < length c"
  then show "extractResource ''Bash'' ps =
              take 100 (takeWhile (\<lambda>x. \<not> is_whitespace x) c @ '' '' @
                takeWhile (\<lambda>x. \<not> is_whitespace x)
                  (dropWhile is_whitespace (dropWhile (\<lambda>x. \<not> is_whitespace x) c)) @ ''...'')"
    by (simp add: extractResource_Bash extractBashCommand_long)
next
  assume "\<forall>c. ps ''command'' \<noteq> Some (JString c)"
  then show "extractResource ''Bash'' ps = ''bash:unknown''"
    by (simp add: extractResource_Bash extractBashCommand_def split: option.splits js_value.splits)
qed

text \<open>
  Claim C10 says that a command longer than 100 code units gives its first word, its
  second word and \<open>...\<close>. The code does not when the command begins with whitespace:
  the split then has an empty first piece, which the code takes for the command name,
  and the command name for the first argument. The command below, two spaces, \<open>ls -la\<close>
  and a long argument, gives \<open> ls...\<close>, not \<open>ls -la...\<close>.
\<close>

theorem extractResource_Bash_leading_whitespace:
  "100 < length (''  ls -la '' @ replicate 100 CHR ''x'')
   \<and> extractResource ''Bash'' [''command'' \<mapsto> JString (''  ls -la '' @ replicate 100 CHR ''x'')] =
       '' ls...''"
  by code_simp

text \<open>
  Claim C6 as stated fails at the resource \<open>[REDACTED]\<close>: it is not sensitive, and it
  is returned unchanged, which is the redaction marker.
\<close>

theorem redactResource_marker_counterexample:
  "\<not> (redactResource ''[REDACTED]'' = ''[REDACTED]'' \<longleftrightarrow> isSensitiveResource ''[REDACTED]'')"
  by code_simp

lemma isSensitiveResource_iff:
  "isSensitiveResource r \<longleftrightarrow>
     (\<exists>p \<in> set sensitivePatterns. \<exists>a b. toLowerCase r = a @ p @ b)"
  by (simp add: isSensitiveResource_def Let_def list_ex_iff includesStr_iff)

text \<open>
  Claim C6, amended. For every string \<open>r\<close>, \<open>redactResource(r)\<close> is \<open>[REDACTED]\<close> when
  \<open>isSensitiveResource(r)\<close> holds and \<open>r\<close> unchanged otherwise;
  \<open>isSensitiveResource(r)\<close> holds exactly when the lowercase form of \<open>r\<close> contains one of
  the nineteen fixed substrings; hence the result is \<open>[REDACTED]\<close> exactly when \<open>r\<close> is
  sensitive or is itself \<open>[REDACTED]\<close>.
\<close>

theorem redactResource_cases:
  "redactResource r = (if isSensitiveResource r then ''[REDACTED]'' else r)
   \<and> (isSensitiveResource r \<longleftrightarrow>
        (\<exists>p \<in> set [''/.ssh/'', ''/etc/passwd'', ''/etc/shadow'', ''id_rsa'', ''id_ed25519'',
                   ''credentials'', ''.env'', ''secret'', ''token'', ''password'', ''api_key'',
                   ''apikey'', ''private_key'', ''privatekey'', ''.pem'', ''.key'', ''aws_'',
                   ''gcp_'', ''azure_''].
           \<exists>a b. toLowerCase r = a @ p @ b))
   \<and> (redactResource r = ''[REDACTED]'' \<longleftrightarrow> isSensitiveResource r \<or> r = ''[REDACTED]'')"
proof (intro conjI)
  show "redactResource r = (if isSensitiveResource r then ''[REDACTED]'' else r)"
    by (simp add: redactResource_def)
next
  show "isSensitiveResource r \<longleftrightarrow>
        (\<exists>p \<in> set [''/.ssh/'', ''/etc/passwd'', ''/etc/shadow'', ''id_rsa'', ''id_ed25519'',
                   ''credentials'', ''.env'', ''secret'', ''token'', ''password'', ''api_key'',
                   ''apikey'', ''private_key'', ''privatekey'', ''.pem'', ''.key'', ''aws_'',
                   ''gcp_'', ''azure_''].
           \<exists>a b. toLowerCase r = a @ p @ b)"
    unfolding isSensitiveResource_iff sensitivePatterns_def ..
next
  show "redactResource r = ''[REDACTED]'' \<longleftrightarrow> isSensitiveResource r \<or> r = ''[REDACTED]''"
    unfolding redactResource_def by (cases "isSensitiveResource r") simp_all
qed

theorem redactResource_cases_witness:
  "redactResource ''/home/user/.SSH/id_rsa'' = ''[REDACTED]''
   \<and> redactResource ''/src/index.ts'' = ''/src/index.ts''"
proof -
  have a: "isSensitiveResource ''/home/user/.SSH/id_rsa''" by code_simp
  have b: "\<not> isSensitiveResource ''/src/index.ts''" by code_simp
  note c = redactResource_cases [of "''/home/user/.SSH/id_rsa''", THEN conjunct1]
  note d = redactResource_cases [of "''/src/index.ts''", THEN conjunct1]
  from a b c d show ?thesis by (simp only: if_True if_False simp_thms)
qed

section \<open>The authorization hook\<close>

lemma fst_catch_ActionDenied:
  "fst (catchGuardError config tool act metrics (ActionDeniedError msg) st) =
     Inr (Some \<lparr>block = True,
                 blockReason = ''[SecureClaw] Action blocked: '' @
                   (case msg of Some m \<Rightarrow> m | None \<Rightarrow> ''denied_by_policy'')\<rparr>)"
  by (simp add: catchGuardError_def Let_def)

lemma fst_catch_SidecarUnavailable:
  "fst (catchGuardError config tool act metrics (SidecarUnavailableError msg) st) =
     Inr (Some \<lparr>block = True, blockReason = unavailableReason\<rparr>)"
  by (simp add: catchGuardError_def Let_def)

lemma fst_unknownError:
  "fst (unknownError config tool metrics text st) =
     (if failClosed config then Inr (Some \<lparr>block = True, blockReason = unavailableReason\<rparr>)
      else Inr None)"
  by (simp add: unknownError_def Let_def)

lemma fst_catch_OtherError:
  "fst (catchGuardError config tool act metrics (OtherError msg) st) =
     (if failClosed config then Inr (Some \<lparr>block = True, blockReason = unavailableReason\<rparr>)
      else Inr None)"
  by (simp add: catchGuardError_def fst_unknownError)

lemma fst_catch_NonError:
  "fst (catchGuardError config tool act metrics (NonError text) st) =
     (if failClosed config then Inr (Some \<lparr>block = True, blockReason = unavailableReason\<rparr>)
      else Inr None)"
  by (simp add: catchGuardError_def fst_unknownError)

lemma fst_catch_Unconvertible:
  "fst (catchGuardError config tool act metrics (Unconvertible thrown) st) = Inl thrown"
  by (simp add: catchGuardError_def)

lemmas fst_catch = fst_catch_ActionDenied fst_catch_SidecarUnavailable fst_catch_OtherError
  fst_catch_NonError fst_catch_Unconvertible

lemma fst_before_tool_call:
  "fst (before_tool_call config guardOrThrow event ctx st) =
     (case guardOrThrow (guardRequestOf config event ctx st) of
        Resolved mandate \<Rightarrow> Inr None
      | Rejected error \<Rightarrow>
          (case error of
             ActionDeniedError msg \<Rightarrow>
               Inr (Some \<lparr>block = True,
                           blockReason = ''[SecureClaw] Action blocked: '' @
                             (case msg of Some m \<Rightarrow> m | None \<Rightarrow> ''denied_by_policy'')\<rparr>)
           | SidecarUnavailableError msg \<Rightarrow>
               Inr (Some \<lparr>block = True, blockReason = unavailableReason\<rparr>)
           | OtherError msg \<Rightarrow>
               (if failClosed config
                then Inr (Some \<lparr>block = True, blockReason = unavailableReason\<rparr>)
                else Inr None)
           | NonError text \<Rightarrow>
               (if failClosed config
                then Inr (Some \<lparr>block = True, blockReason = unavailableReason\<rparr>)
                else Inr None)
           | Unconvertible thrown \<Rightarrow> Inl thrown))"
  by (simp add: before_tool_call_def Let_def fst_catch split: promise.splits js_thrown.splits)

lemma unavailableReason_not_policy:
  "unavailableReason \<noteq> ''[SecureClaw] Action blocked: '' @ x"
  by (simp add: unavailableReason_def)

lemma includesStr_append: "includesStr (a @ r) r"
  unfolding includesStr_iff by (rule exI [of _ a], rule exI [of _ "[]"]) simp

text \<open>
  With \<open>failClosed = true\<close> the hook blocks on every rejection but one kind: a value
  of no \<open>Error\<close> class on which \<open>String(error)\<close> throws.
\<close>

lemma fail_closed_blocks_convertible:
  assumes "failClosed config"
    and "guardOrThrow (guardRequestOf config event ctx st) = Rejected error"
    and "\<forall>thrown. error \<noteq> Unconvertible thrown"
  shows "\<exists>r. fst (before_tool_call config guardOrThrow event ctx st) = Inr (Some r) \<and> block r"
  using assms by (cases error) (simp_all add: fst_before_tool_call)

text \<open>
  Claim C1 says that with \<open>failClosed = true\<close> the hook returns \<open>block = true\<close> whatever
  \<open>guardOrThrow\<close> rejects with. The code does not: under the default configuration, which
  is fail-closed, a rejection with \<open>Object.create(null)\<close> makes \<open>String(error)\<close> throw
  inside the \<open>catch\<close> block, and the hook rejects with that \<open>TypeError\<close> instead of
  returning a block.
\<close>

theorem fail_closed_unconvertible_rejects:
  "failClosed defaultConfig
   \<and> guardUnconvertible (guardRequestOf defaultConfig bashEvent bashContext initialState) =
       Rejected (Unconvertible typeError)
   \<and> fst (before_tool_call defaultConfig guardUnconvertible bashEvent bashContext initialState) =
       Inl typeError
   \<and> (\<forall>r. fst (before_tool_call defaultConfig guardUnconvertible bashEvent bashContext
                 initialState) \<noteq> Inr (Some r))"
  by (simp add: fst_before_tool_call guardUnconvertible_def defaultConfig_def)

text \<open>
  Claim C3. When \<open>guardOrThrow\<close> rejects with an \<open>ActionDeniedError\<close> whose message is
  \<open>r\<close>, the hook returns \<open>block = true\<close> with the reason
  \<open>[SecureClaw] Action blocked: r\<close>, which contains \<open>r\<close> and is not the
  service-unavailable reason, whatever \<open>failClosed\<close> is; and when it rejects with anything
  else and the hook blocks, the reason is the service-unavailable one, which is no
  \<open>Action blocked\<close> reason.
\<close>

theorem policy_deny_distinct:
  "(guardOrThrow (guardRequestOf config event ctx st) = Rejected (ActionDeniedError (Some r))
      \<longrightarrow> fst (before_tool_call config guardOrThrow event ctx st) =
            Inr (Some \<lparr>block = True, blockReason = ''[SecureClaw] Action blocked: '' @ r\<rparr>)
          \<and> includesStr (''[SecureClaw] Action blocked: '' @ r) r
          \<and> ''[SecureClaw] Action blocked: '' @ r \<noteq> unavailableReason)
   \<and> (guardOrThrow (guardRequestOf config event ctx st) = Rejected error
        \<and> (\<forall>msg. error \<noteq> ActionDeniedError msg)
        \<and> fst (before_tool_call config guardOrThrow event ctx st) = Inr (Some b)
      \<longrightarrow> blockReason b = unavailableReason
          \<and> (\<forall>x. blockReason b \<noteq> ''[SecureClaw] Action blocked: '' @ x))"
proof (intro conjI impI)
  assume "guardOrThrow (guardRequestOf config event ctx st) = Rejected (ActionDeniedError (Some r))"
  then show "fst (before_tool_call config guardOrThrow event ctx st) =
            Inr (Some \<lparr>block = True, blockReason = ''[SecureClaw] Action blocked: '' @ r\<rparr>)"
    by (simp add: fst_before_tool_call)
next
  show "includesStr (''[SecureClaw] Action blocked: '' @ r) r"
    by (rule includesStr_append)
next
  show "''[SecureClaw] Action blocked: '' @ r \<noteq> unavailableReason"
    using unavailableReason_not_policy [of r] by (rule not_sym)
next
  assume a: "guardOrThrow (guardRequestOf config event ctx st) = Rejected error
        \<and> (\<forall>msg. error \<noteq> ActionDeniedError msg)
        \<and> fst (before_tool_call config guardOrThrow event ctx st) = Inr (Some b)"
  then have b: "blockReason b = unavailableReason"
    by (cases error) (auto simp add: fst_before_tool_call split: if_splits)
  then show "blockReason b = unavailableReason" .
  show "\<forall>x. blockReason b \<noteq> ''[SecureClaw] Action blocked: '' @ x"
    unfolding b by (intro allI unavailableReason_not_policy)
qed

theorem policy_deny_distinct_witness:
  "fst (before_tool_call failOpenConfig guardDenies bashEvent bashContext initialState) =
     Inr (Some \<lparr>block = True, blockReason = ''[SecureClaw] Action blocked: policy_violation''\<rparr>)
   \<and> fst (before_tool_call defaultConfig guardFaulty bashEvent bashContext initialState) =
       Inr (Some \<lparr>block = True, blockReason = unavailableReason\<rparr>)
   \<and> (\<forall>x. unavailableReason \<noteq> ''[SecureClaw] Action blocked: '' @ x)"
proof -
  have h1: "guardDenies (guardRequestOf failOpenConfig bashEvent bashContext initialState) =
      Rejected (ActionDeniedError (Some ''policy_violation''))"
    by (simp add: guardDenies_def)
  have h2: "guardFaulty (guardRequestOf defaultConfig bashEvent bashContext initialState) =
      Rejected (OtherError (Some ''fetch failed''))"
    by (simp add: guardFaulty_def)
  have h3: "\<forall>msg. OtherError (Some ''fetch failed'') \<noteq> ActionDeniedError msg" by simp
  have h4: "fst (before_tool_call defaultConfig guardFaulty bashEvent bashContext initialState) =
      Inr (Some \<lparr>block = True, blockReason = unavailableReason\<rparr>)"
    by (simp add: fst_before_tool_call guardFaulty_def defaultConfig_def)
  note deny = policy_deny_distinct [of guardDenies failOpenConfig bashEvent bashContext
      initialState "''policy_violation''", THEN conjunct1]
  note other = policy_deny_distinct [of guardFaulty defaultConfig bashEvent bashContext
      initialState _ "OtherError (Some ''fetch failed'')"
      "\<lparr>block = True, blockReason = unavailableReason\<rparr>", THEN conjunct2]
  from deny h1 have a:
    "fst (before_tool_call failOpenConfig guardDenies bashEvent bashContext initialState) =
     Inr (Some \<lparr>block = True, blockReason = ''[SecureClaw] Action blocked: policy_violation''\<rparr>)"
    by simp
  from other h2 h3 h4 have
    "\<forall>x. blockReason \<lparr>block = True, blockReason = unavailableReason\<rparr> \<noteq>
           ''[SecureClaw] Action blocked: '' @ x"
    by blast
  then have c: "\<forall>x. unavailableReason \<noteq> ''[SecureClaw] Action blocked: '' @ x"
    by simp
  from a h4 c show ?thesis by (intro conjI)
qed

text \<open>
  Claim C8. When \<open>guardOrThrow\<close> rejects with a \<open>SidecarUnavailableError\<close> the hook
  returns \<open>block = true\<close> whatever \<open>failClosed\<close> is, also when it is false; and when
  \<open>guardOrThrow\<close> rejects and the hook returns \<open>undefined\<close>, the rejection is neither an
  \<open>ActionDeniedError\<close> nor a \<open>SidecarUnavailableError\<close> (and \<open>failClosed\<close> is false).
\<close>

theorem sidecar_unavailable_always_blocks:
  "(guardOrThrow (guardRequestOf config event ctx st) = Rejected (SidecarUnavailableError msg)
      \<longrightarrow> fst (before_tool_call config guardOrThrow event ctx st) =
            Inr (Some \<lparr>block = True, blockReason = unavailableReason\<rparr>))
   \<and> (guardOrThrow (guardRequestOf config event ctx st) = Rejected error
        \<and> fst (before_tool_call config guardOrThrow event ctx st) = Inr None
      \<longrightarrow> (\<forall>m. error \<noteq> ActionDeniedError m) \<and> (\<forall>m. error \<noteq> SidecarUnavailableError m)
          \<and> \<not> failClosed config)"
proof (intro conjI impI)
  assume "guardOrThrow (guardRequestOf config event ctx st) = Rejected (SidecarUnavailableError msg)"
  then show "fst (before_tool_call config guardOrThrow event ctx st) =
            Inr (Some \<lparr>block = True, blockReason = unavailableReason\<rparr>)"
    by (simp add: fst_before_tool_call)
next
  assume a: "guardOrThrow (guardRequestOf config event ctx st) = Rejected error
        \<and> fst (before_tool_call config guardOrThrow event ctx st) = Inr None"
  then show "\<forall>m. error \<noteq> ActionDeniedError m"
    by (cases error) (auto simp add: fst_before_tool_call split: if_splits)
  from a show "\<forall>m. error \<noteq> SidecarUnavailableError m"
    by (cases error) (auto simp add: fst_before_tool_call split: if_splits)
  from a show "\<not> failClosed config"
    by (cases error) (auto simp add: fst_before_tool_call split: if_splits)
qed

theorem sidecar_unavailable_always_blocks_witness:
  "\<not> failClosed failOpenConfig
   \<and> fst (before_tool_call failOpenConfig guardUnreachable bashEvent bashContext initialState) =
       Inr (Some \<lparr>block = True, blockReason = unavailableReason\<rparr>)
   \<and> fst (before_tool_call failOpenConfig guardFaulty bashEvent bashContext initialState) = Inr None"
proof -
  have fo: "\<not> failClosed failOpenConfig"
    by (simp add: failOpenConfig_def pluginConfig_def mergeConfig_def loadConfigFromEnv_def
        defaultConfig_def override_def)
  have h1: "guardUnreachable (guardRequestOf failOpenConfig bashEvent bashContext initialState) =
      Rejected (SidecarUnavailableError (Some ''Connection refused''))"
    by (simp add: guardUnreachable_def)
  have h2: "guardFaulty (guardRequestOf failOpenConfig bashEvent bashContext initialState) =
      Rejected (OtherError (Some ''fetch failed''))"
    by (simp add: guardFaulty_def)
  have h3: "fst (before_tool_call failOpenConfig guardFaulty bashEvent bashContext initialState) =
      Inr None"
    using fo by (simp add: fst_before_tool_call guardFaulty_def)
  note blocks = sidecar_unavailable_always_blocks [of guardUnreachable failOpenConfig bashEvent
      bashContext initialState "Some ''Connection refused''", THEN conjunct1]
  note only = sidecar_unavailable_always_blocks [of guardFaulty failOpenConfig bashEvent
      bashContext initialState _ "OtherError (Some ''fetch failed'')", THEN conjunct2]
  from blocks h1 have a:
    "fst (before_tool_call failOpenConfig guardUnreachable bashEvent bashContext initialState) =
       Inr (Some \<lparr>block = True, blockReason = unavailableReason\<rparr>)"
    by simp
  from only h2 h3 have "\<not> failClosed failOpenConfig" by blast
  with a h3 show ?thesis by (intro conjI)
qed

text \<open>
  Unless \<open>guardOrThrow\<close> rejects with a value on which \<open>String(error)\<close> throws, the hook
  settles with one of two shapes: \<open>undefined\<close>, or an object with \<open>block = true\<close> and a
  non-empty \<open>blockReason\<close> that begins with \<open>[SecureClaw]\<close>.
\<close>

lemma before_tool_call_shapes_convertible:
  assumes "\<forall>thrown. guardOrThrow (guardRequestOf config event ctx st) \<noteq>
             Rejected (Unconvertible thrown)"
  shows "fst (before_tool_call config guardOrThrow event ctx st) = Inr None
   \<or> (\<exists>reason. fst (before_tool_call config guardOrThrow event ctx st) =
                  Inr (Some \<lparr>block = True, blockReason = reason\<rparr>)
        \<and> reason \<noteq> [] \<and> startsWith reason ''[SecureClaw]'')"
proof (cases "guardOrThrow (guardRequestOf config event ctx st)")
  case (Resolved mandate)
  then show ?thesis by (simp add: fst_before_tool_call)
next
  case (Rejected error)
  with assms have "\<forall>thrown. error \<noteq> Unconvertible thrown" by simp
  with Rejected show ?thesis
    by (cases error) (simp_all add: fst_before_tool_call unavailableReason_def)
qed

text \<open>
  Claim C9 says that the hook returns \<open>undefined\<close> or a block object and never rejects.
  The code rejects: with \<open>failClosed = false\<close> as well, a rejection of \<open>guardOrThrow\<close>
  with \<open>Object.create(null)\<close> makes \<open>String(error)\<close> throw inside the \<open>catch\<close> block,
  so the hook settles with neither shape but with the \<open>TypeError\<close>.
\<close>

theorem before_tool_call_rejects:
  "fst (before_tool_call failOpenConfig guardUnconvertible bashEvent bashContext initialState) =
     Inl typeError
   \<and> fst (before_tool_call failOpenConfig guardUnconvertible bashEvent bashContext initialState) \<noteq>
       Inr None
   \<and> (\<forall>r. fst (before_tool_call failOpenConfig guardUnconvertible bashEvent bashContext
                 initialState) \<noteq> Inr (Some r))"
  by (simp add: fst_before_tool_call guardUnconvertible_def)

section \<open>Audit export and post-execution verification\<close>

lemma guardRequestOf_logged:
  "guardRequestOf config event ctx (st\<lparr>logged := l\<rparr>) = guardRequestOf config event ctx st"
  by (simp add: guardRequestOf_def)

lemma fst_before_tool_call_logged:
  "fst (before_tool_call config guardOrThrow event ctx (st\<lparr>logged := l\<rparr>)) =
     fst (before_tool_call config guardOrThrow event ctx st)"
  by (simp only: fst_before_tool_call guardRequestOf_logged)

lemma verifyBrowserState_eq:
  "verifyBrowserState tool ps result vb st =
     (Inr (),
      st\<lparr>logged := logged st @
        (if vb then [(Info, ''[SecureClaw] Browser verification: '' @ tool @ '' (placeholder)'')]
         else [])\<rparr>)"
  by (simp add: verifyBrowserState_def log_line_def)

lemma verifyFileWrite_eq:
  "verifyFileWrite tool ps result vb st =
     (Inr (),
      st\<lparr>logged := logged st @
        (if vb then [(Info, ''[SecureClaw] File write verification: '' @ tool @ '' (placeholder)'')]
         else [])\<rparr>)"
  by (simp add: verifyFileWrite_def log_line_def)

text \<open>
  Claim C7. \<open>exportDecision\<close>, \<open>verifyBrowserState\<close> and \<open>verifyFileWrite\<close> always
  return normally; the exporter leaves the plugin's state as it is, each verifier
  changes nothing but the log, to which it adds one info line when \<open>verbose\<close> is set and
  nothing otherwise; and the outcome of the authorization hook is the same after any of
  the three as before it.
\<close>

theorem audit_and_verification_are_noops:
  "exportDecision dte st = (Inr (), st)
   \<and> verifyBrowserState tool ps result vb st =
       (Inr (),
        st\<lparr>logged := logged st @
          (if vb then [(Info, ''[SecureClaw] Browser verification: '' @ tool @ '' (placeholder)'')]
           else [])\<rparr>)
   \<and> verifyFileWrite tool ps result vb st =
       (Inr (),
        st\<lparr>logged := logged st @
          (if vb
           then [(Info, ''[SecureClaw] File write verification: '' @ tool @ '' (placeholder)'')]
           else [])\<rparr>)
   \<and> fst (before_tool_call config guardOrThrow event ctx (snd (exportDecision dte st))) =
       fst (before_tool_call config guardOrThrow event ctx st)
   \<and> fst (before_tool_call config guardOrThrow event ctx
            (snd (verifyBrowserState tool ps result vb st))) =
       fst (before_tool_call config guardOrThrow event ctx st)
   \<and> fst (before_tool_call config guardOrThrow event ctx
            (snd (verifyFileWrite tool ps result vb st))) =
       fst (before_tool_call config guardOrThrow event ctx st)"
proof (intro conjI)
  show "exportDecision dte st = (Inr (), st)"
    by (simp add: exportDecision_def)
  show "fst (before_tool_call config guardOrThrow event ctx (snd (exportDecision dte st))) =
       fst (before_tool_call config guardOrThrow event ctx st)"
    by (simp add: exportDecision_def)
  show "fst (before_tool_call config guardOrThrow event ctx
            (snd (verifyBrowserState tool ps result vb st))) =
       fst (before_tool_call config guardOrThrow event ctx st)"
    by (simp only: verifyBrowserState_eq snd_conv fst_before_tool_call_logged)
  show "fst (before_tool_call config guardOrThrow event ctx
            (snd (verifyFileWrite tool ps result vb st))) =
       fst (before_tool_call config guardOrThrow event ctx st)"
    by (simp only: verifyFileWrite_eq snd_conv fst_before_tool_call_logged)
qed (rule verifyBrowserState_eq verifyFileWrite_eq)+

theorem audit_and_verification_are_noops_witness:
  "exportDecision denyEvent initialState = (Inr (), initialState)
   \<and> verifyBrowserState ''computer-use:click'' Map.empty None True initialState =
       (Inr (),
        initialState\<lparr>logged :=
          [(Info, ''[SecureClaw] Browser verification: computer-use:click (placeholder)'')]\<rparr>)
   \<and> verifyFileWrite ''Write'' Map.empty None False initialState = (Inr (), initialState)
   \<and> fst (before_tool_call defaultConfig guardDenies bashEvent bashContext
            (snd (verifyBrowserState ''computer-use:click'' Map.empty None True initialState))) =
       fst (before_tool_call defaultConfig guardDenies bashEvent bashContext initialState)"
proof -
  note browser = audit_and_verification_are_noops [of denyEvent initialState
      "''computer-use:click''" Map.empty None True defaultConfig guardDenies bashEvent bashContext]
  note fw = audit_and_verification_are_noops [of denyEvent initialState
      "''Write''" Map.empty None False defaultConfig guardDenies bashEvent bashContext]
  have l: "logged initialState = []" by (simp add: initialState_def)
  from browser have 1: "exportDecision denyEvent initialState = (Inr (), initialState)"
    by (rule conjunct1)
  from browser l have 2:
    "verifyBrowserState ''computer-use:click'' Map.empty None True initialState =
       (Inr (),
        initialState\<lparr>logged :=
          [(Info, ''[SecureClaw] Browser verification: computer-use:click (placeholder)'')]\<rparr>)"
    by simp
  from fw l have 3: "verifyFileWrite ''Write'' Map.empty None False initialState = (Inr (), initialState)"
    by (simp add: initialState_def)
  from browser have 4:
    "fst (before_tool_call defaultConfig guardDenies bashEvent bashContext
            (snd (verifyBrowserState ''computer-use:click'' Map.empty None True initialState))) =
       fst (before_tool_call defaultConfig guardDenies bashEvent bashContext initialState)"
    by blast
  from 1 2 3 4 show ?thesis by (intro conjI)
qed

section \<open>The decision evaluator\<close>

text \<open>The matcher on the concrete cases of sections 4.1 and 8 of the specification.\<close>

lemma matches_concrete_cases:
  "matches ''*'' ''anything''" "matches ''*'' []"
  "matches ''agent:*'' ''agent:bot-1''" "\<not> matches ''agent:*'' ''user:bot-1''"
  "matches ''fs.*'' ''fs.read''" "matches ''fs.*'' ''fs.write''"
  "\<not> matches ''fs.*'' ''http.request''"
  "matches ''/home/*/projects/**'' ''/home/alice/projects/a/b/c.txt''"
  "\<not> matches ''/home/*/projects/**'' ''/home/alice/other/c.txt''"
  "matches ''*/.aws/*'' ''/home/u/.aws/credentials''"
  "matches [] []" "\<not> matches [] ''x''"
  by code_simp+

lemma find_deny_Some:
  assumes "d \<in> set rs" "P d"
  shows "\<exists>r. find P rs = Some r"
proof (cases "find P rs")
  case None
  with assms show ?thesis by (simp add: find_None_iff)
next
  case (Some r)
  then show ?thesis by blast
qed

text \<open>
  Claim C2. Whenever some Deny rule and some Allow rule of a document both match the
  request in principal, action and resource (each against at least one pattern of the
  rule's list), \<open>evaluate\<close> decides \<open>allow = false\<close>, wherever the two rules stand in
  the document.
\<close>

theorem deny_precedence:
  assumes "d \<in> set (rules document)" and "effect d = Deny"
    and "\<exists>p \<in> set (principals d). matcher p (req_principal request)"
    and "\<exists>p \<in> set (actions d). matcher p (req_action request)"
    and "\<exists>p \<in> set (resources d). matcher p (req_resource request)"
    and "a \<in> set (rules document)" and "effect a = Allow"
    and "\<exists>p \<in> set (principals a). matcher p (req_principal request)"
    and "\<exists>p \<in> set (actions a). matcher p (req_action request)"
    and "\<exists>p \<in> set (resources a). matcher p (req_resource request)"
  shows "allow (evaluate matcher document request mandate) = False"
proof -
  from assms(2-5) have "effect d = Deny \<and> structurally_matches matcher d request"
    by (simp add: structurally_matches_def list_ex_iff)
  with assms(1) obtain r where
    "find (\<lambda>r. effect r = Deny \<and> structurally_matches matcher r request) (rules document) = Some r"
    using find_deny_Some [of d "rules document"
        "\<lambda>r. effect r = Deny \<and> structurally_matches matcher r request"]
    by blast
  then show ?thesis by (simp add: evaluate_def)
qed

theorem deny_precedence_witness:
  "rules allowThenDeny = [allowRead, denyAws]
   \<and> effect allowRead = Allow \<and> effect denyAws = Deny
   \<and> structurally_matches matches allowRead awsRequest
   \<and> structurally_matches matches denyAws awsRequest
   \<and> allow (evaluate matches allowThenDeny awsRequest ''mandate-1'') = False"
proof -
  have r: "rules allowThenDeny = [allowRead, denyAws]" by (simp add: allowThenDeny_def)
  have ea: "effect allowRead = Allow" by (simp add: allowRead_def)
  have ed: "effect denyAws = Deny" by (simp add: denyAws_def)
  have ap: "\<exists>p \<in> set (principals allowRead). matches p (req_principal awsRequest)"
    by (simp add: allowRead_def awsRequest_def)
  have aa: "\<exists>p \<in> set (actions allowRead). matches p (req_action awsRequest)"
    by (simp add: allowRead_def awsRequest_def)
  have ar: "\<exists>p \<in> set (resources allowRead). matches p (req_resource awsRequest)"
    by (simp add: allowRead_def awsRequest_def)
  have dp: "\<exists>p \<in> set (principals denyAws). matches p (req_principal awsRequest)"
    by (simp add: denyAws_def awsRequest_def)
  have da: "\<exists>p \<in> set (actions denyAws). matches p (req_action awsRequest)"
    by (simp add: denyAws_def awsRequest_def)
  have dr: "\<exists>p \<in> set (resources denyAws). matches p (req_resource awsRequest)"
    by (simp add: denyAws_def awsRequest_def)
  have din: "denyAws \<in> set (rules allowThenDeny)" and ain: "allowRead \<in> set (rules allowThenDeny)"
    by (simp_all add: r)
  have sa: "structurally_matches matches allowRead awsRequest"
    using ap aa ar by (simp only: structurally_matches_def list_ex_iff simp_thms)
  have sd: "structurally_matches matches denyAws awsRequest"
    using dp da dr by (simp only: structurally_matches_def list_ex_iff simp_thms)
  have "allow (evaluate matches allowThenDeny awsRequest ''mandate-1'') = False"
    by (rule deny_precedence [OF din ed dp da dr ain ea ap aa ar])
  with r ea ed sa sd show ?thesis by (intro conjI)
qed

text \<open>
  Claim C4. For a document with no rules, \<open>evaluate\<close> answers every request with
  \<open>allow = false\<close>, the reason \<open>no_matching_allow_rule\<close> and no matched rule.
\<close>

theorem default_deny:
  assumes "rules document = []"
  shows "allow (evaluate matcher document request mandate) = False
    \<and> reason (evaluate matcher document request mandate) = ''no_matching_allow_rule''
    \<and> matched_rule (evaluate matcher document request mandate) = None"
  using assms by (simp add: evaluate_def)

theorem default_deny_witness:
  "rules emptyDocument = []
   \<and> evaluate matches emptyDocument awsRequest ''mandate-1'' =
       \<lparr>allow = False, reason = ''no_matching_allow_rule'', matched_rule = None,
        mandate_id = None\<rparr>"
proof -
  have e: "rules emptyDocument = []" by (simp add: emptyDocument_def)
  have m: "mandate_id (evaluate matches emptyDocument awsRequest ''mandate-1'') = None"
    by (simp add: evaluate_def e)
  from default_deny [OF e, of matches awsRequest "''mandate-1''"] m
  have "evaluate matches emptyDocument awsRequest ''mandate-1'' =
       \<lparr>allow = False, reason = ''no_matching_allow_rule'', matched_rule = None,
        mandate_id = None\<rparr>"
    by (cases "evaluate matches emptyDocument awsRequest ''mandate-1''") simp
  with e show ?thesis by (intro conjI)
qed

end
